theory Spec2Isabelle
  imports Main
begin

section \<open>The Ontology adapter of TrustedBench (src/ontology/ontology.js)\<close>

text \<open>
  The adapter is one JavaScript class. Its methods are embedded as HOL functions over
  \<^item> the adapter object (\<open>this\<close>) as a record that is passed in and returned,
  \<^item> the outside world as a record holding the trace of calls made to the
    collaborators (SDK, network transport, logger, timer) and the number of height
    readings made so far,
  \<^item> the collaborators themselves (the SDK, the transport, the file system) as
    records of functions that are parameters of every method.
  A method that throws, a promise that rejects and a promise that resolves are the three
  constructors of \<open>completion\<close>.
\<close>

subsection \<open>JavaScript values, errors, completions\<close>

datatype jsval =
    JUndefined
  | JNull
  | JBool bool
  | JNum int
  | JStr string
  | JArr "jsval list"
  | JObj "(string \<times> jsval) list"

datatype error =
    Error string
  | TypeError
  | FsError
  | SyntaxError
  | TransportError

datatype 'a completion =
    Thrown error
  | Rejected error
  | Resolved 'a

text \<open>Calls to the collaborators, in the order the adapter makes them.\<close>

datatype call =
    SdkSetParamsValue
  | SdkSignTransaction
  | NetPostTx string
  | NetGetHeight
  | UtilSleep nat
  | Log "string list"

record world =
  calls :: "call list"
  polls :: nat

definition emit :: "call \<Rightarrow> world \<Rightarrow> world" where
  "emit c w = w\<lparr>calls := calls w @ [c]\<rparr>"

text \<open>
  The network transport (\<open>./net_util.js\<close>): \<open>postTx\<close> answers a serialized
  transaction with a rejection or with a numeric result; \<open>getHeight k\<close> is the
  height that the \<open>k\<close>-th call of \<open>NetUtil.getHeight()\<close> reports.
\<close>

record net =
  postTx :: "string \<Rightarrow> error + int"
  getHeight :: "nat \<Rightarrow> int"

subsection \<open>waitABlock\<close>

text \<open>\<open>await this.getHeight()\<close>: one more reading of the height.\<close>

definition readHeight :: "net \<Rightarrow> world \<Rightarrow> int \<times> world" where
  "readHeight n w = (getHeight n (polls w), emit NetGetHeight (w\<lparr>polls := Suc (polls w)\<rparr>))"

text \<open>
  The \<open>do ... while (newHeight <= currnetHeight)\<close> loop. It may run forever, so it is a
  partial function: \<open>None\<close> is the loop that never ends.
\<close>

partial_function (option) waitABlock_loop :: "net \<Rightarrow> int \<Rightarrow> world \<Rightarrow> world option" where
  "waitABlock_loop n currnetHeight w =
     (case readHeight n w of (newHeight, w1) \<Rightarrow>
        if newHeight > currnetHeight then Some w1
        else (let w2 = emit (UtilSleep 1000) w1 in
              if newHeight \<le> currnetHeight then waitABlock_loop n currnetHeight w2
              else Some w2))"

declare waitABlock_loop.simps [code]

definition waitABlock :: "net \<Rightarrow> world \<Rightarrow> world option" where
  "waitABlock n w =
     (case readHeight n w of (currnetHeight, w1) \<Rightarrow> waitABlock_loop n currnetHeight w1)"

text \<open>The world after \<open>k\<close> readings that did not exceed the baseline, each followed by its sleep.\<close>

fun stalled :: "nat \<Rightarrow> world \<Rightarrow> world" where
  "stalled 0 w = w"
| "stalled (Suc k) w =
     stalled k (emit (UtilSleep 1000) (emit NetGetHeight (w\<lparr>polls := Suc (polls w)\<rparr>)))"

subsection \<open>Data of the SDK and of the configuration\<close>

text \<open>
  \<open>ontSdk.Parameter\<close> and \<open>AbiFunction\<close>: a function of an ABI has a name and an ordered
  list of typed parameters; binding gives a parameter its value.
\<close>

record parameter =
  p_name :: string
  p_type :: string
  p_value :: jsval

record abi_function =
  f_name :: string
  f_returntype :: string
  f_parameters :: "parameter list"

text \<open>
  \<open>AbiInfo\<close> as \<open>AbiInfo.parseJson\<close> returns it, and the same object once line 73
  (\<open>abiInfo.vmCode = vmCode\<close>) has given it the bytecode: the registry's entry.
\<close>

record abi_info =
  abi_hash :: string
  abi_entrypoint :: string
  abi_functions :: "abi_function list"

record deployed_abi = abi_info +
  vmCode :: string

definition withVmCode :: "abi_info \<Rightarrow> string \<Rightarrow> deployed_abi" where
  "withVmCode abiInfo code =
     \<lparr>abi_hash = abi_hash abiInfo, abi_entrypoint = abi_entrypoint abiInfo,
      abi_functions = abi_functions abiInfo, vmCode = code\<rparr>"

text \<open>One element of \<open>blockChainConfig.ontology.contract\<close>.\<close>

record contract_item =
  item_name :: string
  item_version :: string
  item_author :: string
  item_email :: string
  item_description :: string
  item_needStorage :: bool
  item_path :: string
  item_abi :: string

text \<open>\<open>blockChainConfig.ontology\<close>.\<close>

record ontology_config =
  cfg_contract :: "contract_item list"
  cfg_wallet :: string
  cfg_password :: string

record 'addr account =
  acc_address :: 'addr
  acc_salt :: string
  acc_encryptedKey :: string

record scrypt_params =
  scrypt_n :: int
  scrypt_r :: int
  scrypt_p :: int
  scrypt_dkLen :: int

record decrypt_param =
  dp_cost :: int
  dp_blockSize :: int
  dp_parallel :: int
  dp_size :: int

text \<open>
  The parsed wallet. \<open>wallet.scrypt\<close> may be missing (\<open>None\<close>), and
  \<open>wallet.accounts\<close> may be empty.
\<close>

record 'addr wallet =
  w_accounts :: "'addr account list"
  w_scrypt :: "scrypt_params option"

text \<open>
  The functions of \<open>ontology-ts-sdk\<close> that the adapter calls. The library is not part of
  the repository; each function is a parameter. A function that can throw returns a sum.
  \<open>decrypt key password address saltHex param\<close> is
  \<open>new PrivateKey(key).decrypt(password, address, saltHex, param)\<close>;
  \<open>signTransaction\<close> returns the transaction that the SDK signs in place.
\<close>

record ('tx, 'key, 'addr) sdk =
  walletParseJson :: "string \<Rightarrow> error + 'addr wallet"
  decrypt :: "string \<Rightarrow> string \<Rightarrow> 'addr \<Rightarrow> string \<Rightarrow> decrypt_param \<Rightarrow> error + 'key"
  abiParseJson :: "string \<Rightarrow> error + abi_info"
  makeDeployCodeTransaction ::
    "string \<Rightarrow> string \<Rightarrow> string \<Rightarrow> string \<Rightarrow> string \<Rightarrow> string \<Rightarrow> bool \<Rightarrow> string \<Rightarrow> string
      \<Rightarrow> 'addr \<Rightarrow> 'tx"
  makeInvokeTransaction ::
    "string \<Rightarrow> parameter list \<Rightarrow> 'addr \<Rightarrow> string \<Rightarrow> string \<Rightarrow> 'addr \<Rightarrow> 'tx"
  signTransaction :: "'tx \<Rightarrow> 'key \<Rightarrow> 'tx"
  serialize :: "'tx \<Rightarrow> string"
  getHash :: "'tx \<Rightarrow> string"
  reverseHex :: "string \<Rightarrow> string"
  fromVmCode :: "string \<Rightarrow> 'addr"

text \<open>
  Node's part: \<open>fs.readFileSync\<close> (\<open>None\<close>: the file cannot be read),
  \<open>Buffer.from(salt, 'base64').toString('hex')\<close>, and the two configuration files read
  through \<open>JSON.parse\<close>: \<open>networkConfig\<close> is
  \<open>JSON.parse(fileContent).blockchain.config\<close> and \<open>blockchainConfig\<close> is
  \<open>JSON.parse(...).ontology\<close>.
\<close>

record env =
  readFileSync :: "string \<Rightarrow> string option"
  base64ToHex :: "string \<Rightarrow> string"
  networkConfig :: "string \<Rightarrow> error + string"
  blockchainConfig :: "string \<Rightarrow> error + ontology_config"

text \<open>The adapter object: the fields that the constructor sets on \<open>this\<close>.\<close>

record ('key, 'addr) adapter =
  contractConfig :: "contract_item list"
  wallet :: "'addr wallet"
  account :: "'addr account"
  privateKey :: 'key
  contractAbiInfo :: "string \<rightharpoonup> deployed_abi"

subsection \<open>The constructor\<close>

text \<open>
  The body of the \<open>try\<close> block, lines 29 to 38. \<open>this.account\<close> is
  \<open>this.wallet.accounts[0]\<close>, which is \<open>undefined\<close> for a wallet without accounts; reading
  \<open>salt\<close> of it, or \<open>n\<close> of a missing \<open>scrypt\<close>, is a \<open>TypeError\<close>.
\<close>

definition decryptAccount ::
  "('tx, 'key, 'addr) sdk \<Rightarrow> env \<Rightarrow> 'addr wallet \<Rightarrow> string \<Rightarrow> error + ('addr account \<times> 'key)" where
  "decryptAccount s e wal password =
     (case w_accounts wal of
        [] \<Rightarrow> Inl TypeError
      | acc # _ \<Rightarrow>
          (let saltHex = base64ToHex e (acc_salt acc) in
           case w_scrypt wal of
             None \<Rightarrow> Inl TypeError
           | Some sc \<Rightarrow>
               (let decryptParam = \<lparr>dp_cost = scrypt_n sc, dp_blockSize = scrypt_r sc,
                                     dp_parallel = scrypt_p sc, dp_size = scrypt_dkLen sc\<rparr> in
                case decrypt s (acc_encryptedKey acc) password (acc_address acc) saltHex
                       decryptParam of
                  Inl err \<Rightarrow> Inl err
                | Inr key \<Rightarrow> Inr (acc, key))))"

text \<open>
  Lines 21 to 26: the files are read and parsed; any failure there propagates as it is.
  The result is the parsed \<open>blockChainConfig.ontology\<close> and the wallet.
\<close>

definition loadWallet ::
  "('tx, 'key, 'addr) sdk \<Rightarrow> env \<Rightarrow> string \<Rightarrow> error + (ontology_config \<times> 'addr wallet)" where
  "loadWallet s e config_path =
     (case readFileSync e config_path of
        None \<Rightarrow> Inl FsError
      | Some fileContent \<Rightarrow>
     (case networkConfig e fileContent of
        Inl err \<Rightarrow> Inl err
      | Inr blockchainPath \<Rightarrow>
     (case readFileSync e blockchainPath of
        None \<Rightarrow> Inl FsError
      | Some blockchainContent \<Rightarrow>
     (case blockchainConfig e blockchainContent of
        Inl err \<Rightarrow> Inl err
      | Inr cfg \<Rightarrow>
     (case readFileSync e (cfg_wallet cfg) of
        None \<Rightarrow> Inl FsError
      | Some walletFileContent \<Rightarrow>
     (case walletParseJson s walletFileContent of
        Inl err \<Rightarrow> Inl err
      | Inr wal \<Rightarrow> Inr (cfg, wal)))))))"

text \<open>
  \<open>new Ontology(config_path)\<close>: \<open>Inl\<close> is the error thrown, and then there is no adapter
  object; \<open>Inr\<close> is the adapter constructed. The \<open>catch\<close> clause of line 39 replaces
  whatever the \<open>try\<close> block threw by the one error of line 40.
\<close>

definition Ontology ::
  "('tx, 'key, 'addr) sdk \<Rightarrow> env \<Rightarrow> string \<Rightarrow> error + ('key, 'addr) adapter" where
  "Ontology s e config_path =
     (case loadWallet s e config_path of
        Inl err \<Rightarrow> Inl err
      | Inr (cfg, wal) \<Rightarrow>
          (case decryptAccount s e wal (cfg_password cfg) of
             Inl err \<Rightarrow> Inl (Error ''decrypt wallet failed'')
           | Inr (acc, key) \<Rightarrow>
               Inr \<lparr>contractConfig = cfg_contract cfg, wallet = wal, account = acc,
                    privateKey = key, contractAbiInfo = Map.empty\<rparr>))"

subsection \<open>Transaction status\<close>

text \<open>
  Modelled from the spec: the class \<open>TxStatus\<close> of \<open>../comm/transaction\<close>, which is not
  among the sources. A status record is the transaction hash (its identifier) plus a
  binary outcome flag, pending or successful by default, failed once
  \<open>SetStatusFail\<close> is called.
\<close>

record tx_status =
  tx_id :: string
  tx_failed :: bool

definition TxStatus :: "string \<Rightarrow> tx_status" where
  "TxStatus txHash = \<lparr>tx_id = txHash, tx_failed = False\<rparr>"

definition SetStatusFail :: "tx_status \<Rightarrow> tx_status" where
  "SetStatusFail st = st\<lparr>tx_failed := True\<rparr>"

text \<open>
  \<open>result.GetID()\<close> of lines 112 and 151, where \<open>result\<close> is the number that the
  transport answered: a number has no method \<open>GetID\<close>, and calling \<open>undefined\<close> is a
  \<open>TypeError\<close>.
\<close>

definition GetID_of_result :: "int \<Rightarrow> error + string" where
  "GetID_of_result result = Inl TypeError"

text \<open>
  The callback given to \<open>then\<close>, the same text in \<open>transfer\<close> (lines 109 to 116) and in
  \<open>invokeSmartContract\<close> (lines 148 to 155). An exception in it rejects the promise
  that the method returned.
\<close>

definition thenPosted :: "int \<Rightarrow> tx_status \<Rightarrow> world \<Rightarrow> tx_status completion \<times> world" where
  "thenPosted result invokeStatus w =
     (if result < 0 then
        (let failedStatus = SetStatusFail invokeStatus in
         case GetID_of_result result of
           Inl err \<Rightarrow> (Rejected err, w)
         | Inr txid \<Rightarrow>
             (Resolved failedStatus,
              emit (Log [''sendtx'']) (emit (Log [''tx %s failed'', txid]) w)))
      else (Resolved invokeStatus, emit (Log [''sendtx'']) w))"

subsection \<open>transfer\<close>

definition transfer :: "net \<Rightarrow> string \<Rightarrow> string \<Rightarrow> world \<Rightarrow> tx_status completion \<times> world" where
  "transfer n txHash txData w =
     (let invokeStatus = TxStatus txHash;
          w1 = emit (NetPostTx txData) w in
      case postTx n txData of
        Inl err \<Rightarrow> (Rejected err, w1)
      | Inr result \<Rightarrow> thenPosted result invokeStatus w1)"

subsection \<open>invokeSmartContract\<close>

text \<open>
  The argument object \<open>args\<close> of a call, \<open>{func: ..., args: ...}\<close>: each of its two
  properties is absent (\<open>None\<close>) or holds a value. Reading an absent property gives
  \<open>undefined\<close>; \<open>args.hasOwnProperty('func')\<close> is whether \<open>func\<close> is present.
\<close>

record invoke_args =
  args_func :: "jsval option"
  args_args :: "jsval option"

definition read_prop :: "jsval option \<Rightarrow> jsval" where
  "read_prop p = (case p of None \<Rightarrow> JUndefined | Some v \<Rightarrow> v)"

definition hasOwnProperty_func :: "invoke_args \<Rightarrow> bool" where
  "hasOwnProperty_func a = (args_func a \<noteq> None)"

text \<open>The property name of an index: its decimal digits.\<close>

fun decimal :: "nat \<Rightarrow> string" where
  "decimal k = (if k < 10 then [''0123456789'' ! k]
                else decimal (k div 10) @ [''0123456789'' ! (k mod 10)])"

declare decimal.simps [simp del]

text \<open>
  \<open>v[i]\<close> for a number \<open>i\<close>: a \<open>TypeError\<close> on \<open>undefined\<close> and \<open>null\<close>, the element
  of an array or the character of a string, \<open>undefined\<close> beyond the end, the property
  named by the index for an object.
\<close>

fun jsIndex :: "jsval \<Rightarrow> nat \<Rightarrow> error + jsval" where
  "jsIndex JUndefined i = Inl TypeError"
| "jsIndex JNull i = Inl TypeError"
| "jsIndex (JBool b) i = Inr JUndefined"
| "jsIndex (JNum k) i = Inr JUndefined"
| "jsIndex (JStr s) i = Inr (if i < length s then JStr [s ! i] else JUndefined)"
| "jsIndex (JArr xs) i = Inr (if i < length xs then xs ! i else JUndefined)"
| "jsIndex (JObj kvs) i = Inr (read_prop (map_of kvs (decimal i)))"

text \<open>
  Modelled from the spec: binding has no side effect beyond producing the bound
  descriptor (4.2), so the descriptor that \<open>AbiInfo.getFunction\<close> gives is a value of
  its own and \<open>AbiFunction.setParamsValue\<close> changes that value only. What the two
  functions compute is the behaviour of the SDK, which is not among the sources.
  \<open>getFunction\<close> gives the first function of the ABI that has the name; when there is
  none, which includes the name \<open>undefined\<close>, it throws \<open>Error('not found')\<close>: it never
  returns \<open>undefined\<close>. \<open>setParamsValue\<close> hands the parameter to \<open>setValue\<close> of every
  slot of its name, and \<open>setValue\<close> takes the value over when type and name agree and
  the value is neither \<open>null\<close> nor \<open>undefined\<close>.
\<close>

definition getFunction :: "'a abi_info_scheme \<Rightarrow> jsval \<Rightarrow> error + abi_function" where
  "getFunction abiInfo v =
     (case find (\<lambda>f. JStr (f_name f) = v) (abi_functions abiInfo) of
        None \<Rightarrow> Inl (Error ''not found'')
      | Some f \<Rightarrow> Inr f)"

definition setValue :: "parameter \<Rightarrow> parameter \<Rightarrow> parameter" where
  "setValue slot param =
     (if p_type param = p_type slot \<and> p_name param = p_name slot
         \<and> p_value param \<noteq> JNull \<and> p_value param \<noteq> JUndefined
      then slot\<lparr>p_value := p_value param\<rparr>
      else slot)"

definition setParamsValue :: "abi_function \<Rightarrow> parameter \<Rightarrow> abi_function" where
  "setParamsValue abiFunc param =
     abiFunc\<lparr>f_parameters :=
       map (\<lambda>slot. if p_name param = p_name slot then setValue slot param else slot)
         (f_parameters abiFunc)\<rparr>"

text \<open>
  \<open>typeof abiFunc === 'undefined'\<close> of line 134, for what \<open>getFunction\<close> returned: a
  descriptor is an object.
\<close>

definition typeof_undefined :: "abi_function \<Rightarrow> bool" where
  "typeof_undefined abiFunc = False"

text \<open>
  The loop of lines 137 to 141, from index \<open>i\<close> on. \<open>args.args[i]\<close> can throw, which
  ends the loop and the call.
\<close>

function bindParameters ::
  "nat \<Rightarrow> abi_function \<Rightarrow> invoke_args \<Rightarrow> world \<Rightarrow> (error + abi_function) \<times> world" where
  "bindParameters i abiFunc a w =
     (if i < length (f_parameters abiFunc) then
        (case jsIndex (read_prop (args_args a)) i of
           Inl err \<Rightarrow> (Inl err, w)
         | Inr v \<Rightarrow>
             (let param = \<lparr>p_name = p_name (f_parameters abiFunc ! i),
                           p_type = p_type (f_parameters abiFunc ! i), p_value = v\<rparr> in
              bindParameters (Suc i) (setParamsValue abiFunc param) a
                (emit SdkSetParamsValue w)))
      else (Inr abiFunc, w))"
  by pat_completeness auto
termination
  by (relation "measure (\<lambda>(i, abiFunc, a, w). length (f_parameters abiFunc) - i)")
     (auto simp: setParamsValue_def)

declare bindParameters.simps [simp del]

text \<open>Lines 142 to 144: the invoke transaction, built and signed.\<close>

definition signedInvokeTx ::
  "('tx, 'key, 'addr) sdk \<Rightarrow> ('key, 'addr) adapter \<Rightarrow> deployed_abi \<Rightarrow> abi_function \<Rightarrow> 'tx" where
  "signedInvokeTx s this abiInfo abiFunc =
     signTransaction s
       (makeInvokeTransaction s (f_name abiFunc) (f_parameters abiFunc)
          (fromVmCode s (vmCode abiInfo)) ''0'' ''20000000'' (acc_address (account this)))
       (privateKey this)"

text \<open>
  The method returns the outcome of the call, the adapter object and the world. The
  lookup of line 133 comes before the test of line 134, and what it throws ends the call.
  The three parameters \<open>context\<close>, \<open>contractVer\<close> and \<open>timeout\<close> are of any type.
\<close>

definition invokeSmartContract ::
  "('tx, 'key, 'addr) sdk \<Rightarrow> net \<Rightarrow> ('key, 'addr) adapter \<Rightarrow>
   'c \<Rightarrow> string \<Rightarrow> 'v \<Rightarrow> invoke_args \<Rightarrow> 't \<Rightarrow> world \<Rightarrow>
   tx_status completion \<times> ('key, 'addr) adapter \<times> world" where
  "invokeSmartContract s n this context contractID contractVer a timeout w =
     (case contractAbiInfo this contractID of
        None \<Rightarrow> (Thrown (Error ''the contract doesn't deploy!''), this, w)
      | Some abiInfo \<Rightarrow>
          (case getFunction abiInfo (read_prop (args_func a)) of
             Inl err \<Rightarrow> (Thrown err, this, w)
           | Inr abiFunc \<Rightarrow>
               if \<not> hasOwnProperty_func a \<or> typeof_undefined abiFunc then
                 (Thrown (Error ''not define invoke contract func!''), this, w)
               else
                 (case bindParameters 0 abiFunc a w of
                    (Inl err, w1) \<Rightarrow> (Thrown err, this, w1)
                  | (Inr bound, w1) \<Rightarrow>
                      (let tx = signedInvokeTx s this abiInfo bound;
                           w2 = emit SdkSignTransaction w1;
                           txHash = reverseHex s (getHash s tx);
                           invokeStatus = TxStatus txHash;
                           w3 = emit (Log [''invoke'', txHash]) w2;
                           w4 = emit (NetPostTx (serialize s tx)) w3 in
                       case postTx n (serialize s tx) of
                         Inl err \<Rightarrow> (Rejected err, this, w4)
                       | Inr result \<Rightarrow>
                           (case thenPosted result invokeStatus w4 of
                              (r, w5) \<Rightarrow> (r, this, w5))))))"

subsection \<open>installSmartContract\<close>

text \<open>
  The callback of \<open>forEach\<close>, lines 59 to 76, for one item. The first component is the
  exception that ended it, if any; what it did to the adapter and to the world before
  stays done.
\<close>

definition deployItem ::
  "('tx, 'key, 'addr) sdk \<Rightarrow> env \<Rightarrow> contract_item \<Rightarrow> ('key, 'addr) adapter \<Rightarrow> world \<Rightarrow>
   error option \<times> ('key, 'addr) adapter \<times> world" where
  "deployItem s e item this w =
     (case readFileSync e (item_path item) of
        None \<Rightarrow> (Some FsError, this, w)
      | Some code \<Rightarrow>
          (let tx = signTransaction s
                      (makeDeployCodeTransaction s code (item_name item) (item_version item)
                         (item_author item) (item_email item) (item_description item)
                         (item_needStorage item) ''0'' ''20000000''
                         (acc_address (account this)))
                      (privateKey this);
               w1 = emit SdkSignTransaction w;
               w2 = emit (NetPostTx (serialize s tx)) w1 in
           case readFileSync e (item_abi item) of
             None \<Rightarrow> (Some FsError, this, w2)
           | Some abiFileContent \<Rightarrow>
               (case abiParseJson s abiFileContent of
                  Inl err \<Rightarrow> (Some err, this, w2)
                | Inr abiInfo \<Rightarrow>
                    (let this1 = this\<lparr>contractAbiInfo :=
                                   (contractAbiInfo this)(item_name item \<mapsto> withVmCode abiInfo code)\<rparr>;
                         txHash = reverseHex s (getHash s tx) in
                     (None, this1, emit (Log [''deploy'', txHash]) w2)))))"

fun deployEach ::
  "('tx, 'key, 'addr) sdk \<Rightarrow> env \<Rightarrow> contract_item list \<Rightarrow> ('key, 'addr) adapter \<Rightarrow> world \<Rightarrow>
   error option \<times> ('key, 'addr) adapter \<times> world" where
  "deployEach s e [] this w = (None, this, w)"
| "deployEach s e (item # items) this w =
     (case deployItem s e item this w of
        (Some err, this1, w1) \<Rightarrow> (Some err, this1, w1)
      | (None, this1, w1) \<Rightarrow> deployEach s e items this1 w1)"

text \<open>
  The method is \<open>async\<close>: an exception of the loop rejects its promise. After the loop it
  waits for a block, which may never come (\<open>None\<close>), and resolves with no value:
  \<open>Resolved None\<close> is the promise resolved with \<open>undefined\<close>, \<open>Resolved (Some st)\<close>
  would be a promise resolved with a status record.
\<close>

definition installSmartContract ::
  "('tx, 'key, 'addr) sdk \<Rightarrow> env \<Rightarrow> net \<Rightarrow> ('key, 'addr) adapter \<Rightarrow> world \<Rightarrow>
   (tx_status option completion \<times> ('key, 'addr) adapter \<times> world) option" where
  "installSmartContract s e n this w =
     (case deployEach s e (contractConfig this) this w of
        (Some err, this1, w1) \<Rightarrow> Some (Rejected err, this1, w1)
      | (None, this1, w1) \<Rightarrow>
          (case waitABlock n w1 of
             None \<Rightarrow> None
           | Some w2 \<Rightarrow> Some (Resolved None, this1, w2)))"

subsection \<open>Concrete collaborators and inputs\<close>

text \<open>
  A small SDK over strings, a file system with one network configuration, one wallet and
  two versions of a contract named Token, and transports that accept, refuse or stall.
\<close>

definition token_abi :: abi_info where
  "token_abi =
     \<lparr>abi_hash = ''80f3'', abi_entrypoint = ''Main'',
      abi_functions =
        [\<lparr>f_name = ''transfer'', f_returntype = ''Boolean'',
          f_parameters = [\<lparr>p_name = ''to'', p_type = ''ByteArray'', p_value = JStr ''''\<rparr>,
                          \<lparr>p_name = ''amount'', p_type = ''Integer'', p_value = JStr ''''\<rparr>]\<rparr>]\<rparr>"

definition token_abi_v2 :: abi_info where
  "token_abi_v2 =
     \<lparr>abi_hash = ''91a4'', abi_entrypoint = ''Main'',
      abi_functions = [\<lparr>f_name = ''burn'', f_returntype = ''Boolean'', f_parameters = []\<rparr>]\<rparr>"

definition demo_account :: "string account" where
  "demo_account = \<lparr>acc_address = ''AazEvfQPcQ2GEFFPLF1ZLwQ7K5jDn81hve'', acc_salt = ''c2FsdA=='',
                   acc_encryptedKey = ''9b1c''\<rparr>"

definition demo_wallet :: "string wallet" where
  "demo_wallet =
     \<lparr>w_accounts = [demo_account],
      w_scrypt = Some \<lparr>scrypt_n = 16384, scrypt_r = 8, scrypt_p = 8, scrypt_dkLen = 64\<rparr>\<rparr>"

fun reversePairs :: "string \<Rightarrow> string" where
  "reversePairs (a # b # rest) = reversePairs rest @ [a, b]"
| "reversePairs rest = []"

definition demo_sdk :: "(string, string, string) sdk" where
  "demo_sdk =
     \<lparr>walletParseJson = (\<lambda>c. if c = ''wallet'' then Inr demo_wallet else Inl SyntaxError),
      decrypt = (\<lambda>key password address saltHex param.
                   if password = ''passwordtest'' then Inr (''priv-'' @ key)
                   else Inl (Error ''Decrypt error'')),
      abiParseJson = (\<lambda>c. if c = ''abi-v1'' then Inr token_abi
                          else if c = ''abi-v2'' then Inr token_abi_v2 else Inl SyntaxError),
      makeDeployCodeTransaction =
        (\<lambda>code name version author email desp needStorage gasPrice gasLimit payer.
           ''d0'' @ code),
      makeInvokeTransaction = (\<lambda>name params address gasPrice gasLimit payer. ''d1'' @ address),
      signTransaction = (\<lambda>tx key. tx @ ''5167''),
      serialize = (\<lambda>tx. tx),
      getHash = (\<lambda>tx. take 4 tx),
      reverseHex = reversePairs,
      fromVmCode = (\<lambda>code. take 4 code)\<rparr>"

definition token_item :: contract_item where
  "token_item =
     \<lparr>item_name = ''Token'', item_version = ''1.0'', item_author = ''a'', item_email = ''e'',
      item_description = ''d'', item_needStorage = True, item_path = ''token.avm'',
      item_abi = ''token.abi.json''\<rparr>"

definition token_item_v2 :: contract_item where
  "token_item_v2 = token_item\<lparr>item_version := ''2.0'', item_path := ''token2.avm'',
                               item_abi := ''token2.abi.json''\<rparr>"

definition demo_files :: "string \<Rightarrow> string option" where
  "demo_files =
     map_of [(''network.json'', ''network''), (''ontology.json'', ''ontology''),
             (''badpass.json'', ''badpass''), (''wallet.dat'', ''wallet''),
             (''token.avm'', ''54c56b''), (''token.abi.json'', ''abi-v1''),
             (''token2.avm'', ''00c56b''), (''token2.abi.json'', ''abi-v2'')]"

definition demo_env :: env where
  "demo_env =
     \<lparr>readFileSync = demo_files,
      base64ToHex = (\<lambda>salt. ''73616c74''),
      networkConfig = (\<lambda>c. if c = ''network'' then Inr ''ontology.json''
                           else if c = ''badpass'' then Inr ''badpass.json''
                           else Inl SyntaxError),
      blockchainConfig =
        (\<lambda>c. if c = ''ontology''
              then Inr \<lparr>cfg_contract = [token_item], cfg_wallet = ''wallet.dat'',
                        cfg_password = ''passwordtest''\<rparr>
              else if c = ''badpass''
              then Inr \<lparr>cfg_contract = [token_item], cfg_wallet = ''wallet.dat'',
                        cfg_password = ''guess''\<rparr>
              else Inl SyntaxError)\<rparr>"

definition demo_adapter :: "(string, string) adapter" where
  "demo_adapter =
     \<lparr>contractConfig = [token_item], wallet = demo_wallet, account = demo_account,
      privateKey = ''priv-9b1c'', contractAbiInfo = Map.empty\<rparr>"

definition deployed_adapter :: "(string, string) adapter" where
  "deployed_adapter =
     demo_adapter\<lparr>contractAbiInfo := [''Token'' \<mapsto> withVmCode token_abi ''54c56b'']\<rparr>"

definition transfer_args :: invoke_args where
  "transfer_args =
     \<lparr>args_func = Some (JStr ''transfer''),
      args_args = Some (JArr [JStr ''AazE'', JNum 5])\<rparr>"

definition world0 :: world where
  "world0 = \<lparr>calls = [], polls = 0\<rparr>"

text \<open>The transport answers every transaction with \<open>r\<close>; the height is 10, then 11.\<close>

definition answering_net :: "int \<Rightarrow> net" where
  "answering_net r = \<lparr>postTx = (\<lambda>d. Inr r), getHeight = (\<lambda>k. if k = 0 then 10 else 11)\<rparr>"

text \<open>The heights 100, 100, 100, 101, and a height that stays at 100.\<close>

definition net_100_100_100_101 :: net where
  "net_100_100_100_101 = \<lparr>postTx = (\<lambda>d. Inr 0), getHeight = (\<lambda>k. if k < 3 then 100 else 101)\<rparr>"

definition stalled_net :: net where
  "stalled_net = \<lparr>postTx = (\<lambda>d. Inr 0), getHeight = (\<lambda>k. 100)\<rparr>"

section \<open>Properties\<close>

subsection \<open>Waiting for a block\<close>

lemma polls_emit [simp]: "polls (emit c w) = polls w"
  by (simp add: emit_def)

lemma calls_emit [simp]: "calls (emit c w) = calls w @ [c]"
  by (simp add: emit_def)

lemma polls_stalled [simp]: "polls (stalled k w) = polls w + k"
  by (induction k arbitrary: w) simp_all

lemma calls_stalled:
  "calls (stalled k w) = calls w @ concat (replicate k [NetGetHeight, UtilSleep 1000])"
  by (induction k arbitrary: w) simp_all

lemma waitABlock_loop_exit:
  "currnetHeight < getHeight n (polls w) \<Longrightarrow>
   waitABlock_loop n currnetHeight w = Some (emit NetGetHeight (w\<lparr>polls := Suc (polls w)\<rparr>))"
  by (subst waitABlock_loop.simps) (simp add: readHeight_def)

lemma waitABlock_loop_again:
  "getHeight n (polls w) \<le> currnetHeight \<Longrightarrow>
   waitABlock_loop n currnetHeight w = waitABlock_loop n currnetHeight (stalled 1 w)"
  by (subst waitABlock_loop.simps) (simp add: readHeight_def Let_def)

lemma waitABlock_loop_stalled:
  "(\<And>j. j < k \<Longrightarrow> getHeight n (polls w + j) \<le> currnetHeight) \<Longrightarrow>
   waitABlock_loop n currnetHeight w = waitABlock_loop n currnetHeight (stalled k w)"
proof (induction k arbitrary: w)
  case 0
  show ?case by simp
next
  case (Suc k)
  have first: "getHeight n (polls w) \<le> currnetHeight"
    using Suc.prems [of 0] by simp
  have rest: "getHeight n (polls (stalled 1 w) + j) \<le> currnetHeight" if "j < k" for j
    using Suc.prems [of "Suc j"] that by simp
  have "waitABlock_loop n currnetHeight w = waitABlock_loop n currnetHeight (stalled 1 w)"
    using first by (rule waitABlock_loop_again)
  also have "\<dots> = waitABlock_loop n currnetHeight (stalled k (stalled 1 w))"
    using rest by (rule Suc.IH)
  finally show ?case by simp
qed

lemma waitABlock_loop_first:
  assumes stall: "\<And>j. j < k \<Longrightarrow> getHeight n (polls w + j) \<le> currnetHeight"
    and exceed: "currnetHeight < getHeight n (polls w + k)"
  shows "waitABlock_loop n currnetHeight w =
         Some (emit NetGetHeight ((stalled k w)\<lparr>polls := Suc (polls w + k)\<rparr>))"
proof -
  have "waitABlock_loop n currnetHeight w = waitABlock_loop n currnetHeight (stalled k w)"
    using stall by (rule waitABlock_loop_stalled)
  also have "\<dots> = Some (emit NetGetHeight ((stalled k w)\<lparr>polls := Suc (polls (stalled k w))\<rparr>))"
    using exceed by (intro waitABlock_loop_exit) simp
  finally show ?thesis by simp
qed

text \<open>A loop that returns has read a height above the baseline.\<close>

lemma waitABlock_loop_returns_exceeds:
  assumes "waitABlock_loop n currnetHeight w = Some w'"
  shows "\<exists>j. currnetHeight < getHeight n (polls w + j)"
proof (rule waitABlock_loop.raw_induct
    [where P = "\<lambda>n c w y. \<exists>j. c < getHeight n (polls w + j)", OF _ assms])
  fix loop :: "net \<Rightarrow> int \<Rightarrow> world \<Rightarrow> world option" and n c w y
  assume IH: "\<And>n c w y. loop n c w = Some y \<Longrightarrow> \<exists>j. c < getHeight n (polls w + j)"
  assume step: "(case readHeight n w of
      (newHeight, w1) \<Rightarrow>
        if c < newHeight then Some w1
        else let w2 = emit (UtilSleep 1000) w1
             in if newHeight \<le> c then loop n c w2 else Some w2) = Some y"
  show "\<exists>j. c < getHeight n (polls w + j)"
  proof (cases "c < getHeight n (polls w)")
    case True
    then have "c < getHeight n (polls w + 0)" by simp
    then show ?thesis by blast
  next
    case False
    with step have "loop n c (stalled 1 w) = Some y"
      by (simp add: readHeight_def Let_def split: if_splits)
    from IH [OF this] obtain j where "c < getHeight n (polls (stalled 1 w) + j)"
      by blast
    then have "c < getHeight n (polls w + Suc j)" by simp
    then show ?thesis by blast
  qed
qed

lemma waitABlock_loop_never:
  assumes "\<And>j. getHeight n (polls w + j) \<le> currnetHeight"
  shows "waitABlock_loop n currnetHeight w = None"
proof (cases "waitABlock_loop n currnetHeight w")
  case None
  then show ?thesis .
next
  case (Some w')
  from waitABlock_loop_returns_exceeds [OF this] obtain j
    where "currnetHeight < getHeight n (polls w + j)" by blast
  with assms [of j] show ?thesis by simp
qed

lemma waitABlock_unfold:
  "waitABlock n w =
   waitABlock_loop n (getHeight n (polls w)) (emit NetGetHeight (w\<lparr>polls := Suc (polls w)\<rparr>))"
  by (simp add: waitABlock_def readHeight_def)

lemma waitABlock_first:
  assumes stall: "\<And>j. j < k \<Longrightarrow> getHeight n (Suc (polls w) + j) \<le> getHeight n (polls w)"
    and exceed: "getHeight n (polls w) < getHeight n (Suc (polls w) + k)"
  shows "waitABlock n w =
         Some \<lparr>calls = calls w @ NetGetHeight #
                  concat (replicate k [NetGetHeight, UtilSleep 1000]) @ [NetGetHeight],
               polls = polls w + k + 2\<rparr>"
proof -
  let ?b = "emit NetGetHeight (w\<lparr>polls := Suc (polls w)\<rparr>)"
  have "waitABlock_loop n (getHeight n (polls w)) ?b =
        Some (emit NetGetHeight ((stalled k ?b)\<lparr>polls := Suc (polls ?b + k)\<rparr>))"
    using stall exceed by (intro waitABlock_loop_first) simp_all
  moreover have "calls (stalled k ?b) =
      calls w @ NetGetHeight # concat (replicate k [NetGetHeight, UtilSleep 1000])"
    by (simp add: calls_stalled)
  ultimately show ?thesis
    by (simp add: waitABlock_unfold emit_def)
qed

lemma waitABlock_never:
  assumes "\<And>k. getHeight n (Suc (polls w) + k) \<le> getHeight n (polls w)"
  shows "waitABlock n w = None"
  unfolding waitABlock_unfold using assms by (intro waitABlock_loop_never) simp

text \<open>
  C3. With the readings 100, 100, 100, 101 (the first is the baseline), the method
  returns after three more readings, the last of which is the 101, and two sleeps of
  1000 ms: the calls made are exactly those listed.
\<close>

theorem waitABlock_100_100_100_101:
  assumes "getHeight n (polls w) = 100"
    and "getHeight n (polls w + 1) = 100"
    and "getHeight n (polls w + 2) = 100"
    and "getHeight n (polls w + 3) = 101"
  shows "waitABlock n w =
         Some \<lparr>calls = calls w @ [NetGetHeight,
                                  NetGetHeight, UtilSleep 1000,
                                  NetGetHeight, UtilSleep 1000,
                                  NetGetHeight],
               polls = polls w + 4\<rparr>"
proof -
  have stall: "getHeight n (Suc (polls w) + j) \<le> getHeight n (polls w)" if "j < 2" for j
  proof -
    from that have "j = 0 \<or> j = 1" by arith
    then show ?thesis using assms by auto
  qed
  have exceed: "getHeight n (polls w) < getHeight n (Suc (polls w) + 2)"
    using assms by (simp add: numeral_3_eq_3)
  from waitABlock_first [OF stall exceed] show ?thesis
    by (simp add: numeral_2_eq_2)
qed

theorem waitABlock_100_100_100_101_witness:
  "waitABlock net_100_100_100_101 world0 =
     Some \<lparr>calls = [NetGetHeight, NetGetHeight, UtilSleep 1000, NetGetHeight, UtilSleep 1000,
                    NetGetHeight],
           polls = 4\<rparr>"
  using waitABlock_100_100_100_101 [of net_100_100_100_101 world0]
  by (simp add: net_100_100_100_101_def world0_def)

text \<open>
  C9. The method never returns exactly when no reading after the baseline exceeds it;
  and when the reading number \<open>k\<close> after the baseline is the first that exceeds it, the
  method returns right after that reading, having slept after each of the \<open>k\<close>
  readings before.
\<close>

theorem waitABlock_returns_on_first_higher_reading:
  "(waitABlock n w = None) =
     (\<forall>k. getHeight n (Suc (polls w) + k) \<le> getHeight n (polls w))
   \<and> (\<forall>k. getHeight n (polls w) < getHeight n (Suc (polls w) + k)
          \<and> (\<forall>j<k. getHeight n (Suc (polls w) + j) \<le> getHeight n (polls w))
        \<longrightarrow> waitABlock n w =
              Some \<lparr>calls = calls w @ NetGetHeight #
                       concat (replicate k [NetGetHeight, UtilSleep 1000]) @ [NetGetHeight],
                    polls = polls w + k + 2\<rparr>)"
proof (intro conjI allI impI)
  show "(waitABlock n w = None) =
     (\<forall>k. getHeight n (Suc (polls w) + k) \<le> getHeight n (polls w))"
  proof
    assume none: "waitABlock n w = None"
    show "\<forall>k. getHeight n (Suc (polls w) + k) \<le> getHeight n (polls w)"
    proof (rule ccontr)
      assume "\<not> (\<forall>k. getHeight n (Suc (polls w) + k) \<le> getHeight n (polls w))"
      then have ex: "\<exists>k. getHeight n (polls w) < getHeight n (Suc (polls w) + k)"
        by (simp add: not_le)
      define k where "k = (LEAST k. getHeight n (polls w) < getHeight n (Suc (polls w) + k))"
      have exceed: "getHeight n (polls w) < getHeight n (Suc (polls w) + k)"
        unfolding k_def using ex by (rule LeastI_ex)
      have stall: "getHeight n (Suc (polls w) + j) \<le> getHeight n (polls w)" if "j < k" for j
      proof -
        from that have "\<not> getHeight n (polls w) < getHeight n (Suc (polls w) + j)"
          unfolding k_def by (rule not_less_Least)
        then show ?thesis by simp
      qed
      from waitABlock_first [OF stall exceed] none show False
        by simp
    qed
  next
    assume "\<forall>k. getHeight n (Suc (polls w) + k) \<le> getHeight n (polls w)"
    then show "waitABlock n w = None"
      by (intro waitABlock_never) simp
  qed
next
  fix k
  assume h: "getHeight n (polls w) < getHeight n (Suc (polls w) + k)
          \<and> (\<forall>j<k. getHeight n (Suc (polls w) + j) \<le> getHeight n (polls w))"
  then show "waitABlock n w =
              Some \<lparr>calls = calls w @ NetGetHeight #
                       concat (replicate k [NetGetHeight, UtilSleep 1000]) @ [NetGetHeight],
                    polls = polls w + k + 2\<rparr>"
    by (intro waitABlock_first) simp_all
qed

theorem waitABlock_returns_on_first_higher_reading_witness:
  "waitABlock stalled_net world0 = None
   \<and> waitABlock (answering_net 0) world0 =
       Some \<lparr>calls = [NetGetHeight, NetGetHeight], polls = 2\<rparr>"
proof
  show "waitABlock stalled_net world0 = None"
    using waitABlock_returns_on_first_higher_reading [of stalled_net world0]
    by (simp add: stalled_net_def)
next
  have "getHeight (answering_net 0) (polls world0)
          < getHeight (answering_net 0) (Suc (polls world0) + 0)
        \<and> (\<forall>j<0. getHeight (answering_net 0) (Suc (polls world0) + j)
                    \<le> getHeight (answering_net 0) (polls world0))"
    by (simp add: answering_net_def world0_def)
  with waitABlock_returns_on_first_higher_reading [of "answering_net 0" world0]
  have "waitABlock (answering_net 0) world0 =
          Some \<lparr>calls = calls world0 @ NetGetHeight #
                   concat (replicate 0 [NetGetHeight, UtilSleep 1000]) @ [NetGetHeight],
                polls = polls world0 + 0 + 2\<rparr>"
    by blast
  then show "waitABlock (answering_net 0) world0 =
       Some \<lparr>calls = [NetGetHeight, NetGetHeight], polls = 2\<rparr>"
    by (simp add: world0_def)
qed

subsection \<open>Invoking a contract\<close>

lemma thenPosted_negative:
  "result < 0 \<Longrightarrow> thenPosted result invokeStatus w = (Rejected TypeError, w)"
  by (simp add: thenPosted_def GetID_of_result_def)

lemma thenPosted_nonnegative:
  "0 \<le> result \<Longrightarrow>
   thenPosted result invokeStatus w = (Resolved invokeStatus, emit (Log [''sendtx'']) w)"
  by (simp add: thenPosted_def)

text \<open>A call that passes the two checks and binds its arguments reaches the transport.\<close>

lemma invokeSmartContract_posted:
  assumes "contractAbiInfo this contractID = Some abiInfo"
    and "args_func a = Some v"
    and "getFunction abiInfo v = Inr abiFunc"
    and "bindParameters 0 abiFunc a w = (Inr bound, w1)"
    and "postTx n (serialize s (signedInvokeTx s this abiInfo bound)) = Inr result"
  shows "fst (invokeSmartContract s n this context contractID contractVer a timeout w) =
         fst (thenPosted result
                (TxStatus (reverseHex s (getHash s (signedInvokeTx s this abiInfo bound)))) w')"
  using assms
  by (simp add: invokeSmartContract_def hasOwnProperty_func_def typeof_undefined_def
      read_prop_def Let_def thenPosted_def GetID_of_result_def split: prod.splits)

text \<open>
  C1. What the code does against a deployed contract when the argument object has no
  \<open>func\<close>, or when its \<open>func\<close> is not the name of a function of the ABI: the lookup of
  line 133 throws, so the call fails with \<open>Error('not found')\<close> and not with the error
  of line 135, whatever the positional arguments are. No call at all fails with the
  error of line 135.
\<close>

theorem invoke_lookup_throws_not_found:
  "(contractAbiInfo this contractID = Some abiInfo
      \<and> (args_func a = None
           \<or> read_prop (args_func a) \<notin> (\<lambda>f. JStr (f_name f)) ` set (abi_functions abiInfo))
    \<longrightarrow> invokeSmartContract s n this context contractID contractVer
          (a\<lparr>args_args := positional\<rparr>) timeout w =
        (Thrown (Error ''not found''), this, w))
   \<and> fst (invokeSmartContract s n this context contractID contractVer a timeout w) \<noteq>
       Thrown (Error ''not define invoke contract func!'')"
proof (rule conjI)
  show "contractAbiInfo this contractID = Some abiInfo
      \<and> (args_func a = None
           \<or> read_prop (args_func a) \<notin> (\<lambda>f. JStr (f_name f)) ` set (abi_functions abiInfo))
    \<longrightarrow> invokeSmartContract s n this context contractID contractVer
          (a\<lparr>args_args := positional\<rparr>) timeout w =
        (Thrown (Error ''not found''), this, w)"
  proof
    assume h: "contractAbiInfo this contractID = Some abiInfo
      \<and> (args_func a = None
           \<or> read_prop (args_func a) \<notin> (\<lambda>f. JStr (f_name f)) ` set (abi_functions abiInfo))"
    have "read_prop (args_func a) \<notin> (\<lambda>f. JStr (f_name f)) ` set (abi_functions abiInfo)"
      using h by (auto simp: read_prop_def)
    then have "find (\<lambda>f. JStr (f_name f) = read_prop (args_func a)) (abi_functions abiInfo) = None"
      unfolding find_None_iff by (metis image_eqI)
    then have "getFunction abiInfo (read_prop (args_func a)) = Inl (Error ''not found'')"
      by (simp add: getFunction_def)
    with h show "invokeSmartContract s n this context contractID contractVer
          (a\<lparr>args_args := positional\<rparr>) timeout w =
        (Thrown (Error ''not found''), this, w)"
      by (simp add: invokeSmartContract_def)
  qed
next
  have lookup: "getFunction abiInfo JUndefined = Inl (Error ''not found'')"
    for abiInfo :: deployed_abi
  proof -
    have "find (\<lambda>f. JStr (f_name f) = JUndefined) (abi_functions abiInfo) = None"
      by (simp add: find_None_iff)
    then show ?thesis by (simp add: getFunction_def)
  qed
  have thrown: "e = TypeError"
    if "bindParameters i abiFunc a w = (Inl e, w1)" for i abiFunc e w1
    using that
  proof (induction i abiFunc a w rule: bindParameters.induct)
    case (1 i abiFunc a w)
    then show ?case
      by (subst (asm) (2) bindParameters.simps)
         (auto simp: Let_def split: if_splits sum.splits elim: jsIndex.elims)
  qed
  show "fst (invokeSmartContract s n this context contractID contractVer a timeout w) \<noteq>
       Thrown (Error ''not define invoke contract func!'')"
  proof (cases "contractAbiInfo this contractID")
    case None
    then show ?thesis by (simp add: invokeSmartContract_def)
  next
    case (Some abiInfo)
    show ?thesis
    proof (cases "getFunction abiInfo (read_prop (args_func a))")
      case (Inl err)
      then have "err = Error ''not found''"
        by (simp add: getFunction_def split: option.splits)
      with Some Inl show ?thesis by (simp add: invokeSmartContract_def)
    next
      case (Inr abiFunc)
      with lookup [of abiInfo] have own: "hasOwnProperty_func a"
        by (cases "args_func a") (auto simp: hasOwnProperty_func_def read_prop_def)
      obtain r w1 where b: "bindParameters 0 abiFunc a w = (r, w1)"
        by (cases "bindParameters 0 abiFunc a w")
      show ?thesis
      proof (cases r)
        case (Inl e)
        with b thrown have "e = TypeError" by blast
        with Some Inr own b Inl show ?thesis
          by (simp add: invokeSmartContract_def typeof_undefined_def)
      next
        case (Inr bound)
        with Some \<open>getFunction abiInfo (read_prop (args_func a)) = Inr abiFunc\<close> own b
        show ?thesis
          by (simp add: invokeSmartContract_def typeof_undefined_def Let_def thenPosted_def
              GetID_of_result_def split: sum.splits)
      qed
    qed
  qed
qed

theorem invoke_lookup_throws_not_found_witness:
  "invokeSmartContract demo_sdk (answering_net 0) deployed_adapter () ''Token'' ()
     \<lparr>args_func = None, args_args = Some (JArr [JStr ''AazE'', JNum 5])\<rparr> () world0 =
     (Thrown (Error ''not found''), deployed_adapter, world0)
   \<and> invokeSmartContract demo_sdk (answering_net 0) deployed_adapter () ''Token'' ()
     \<lparr>args_func = Some (JStr ''mint''), args_args = None\<rparr> () world0 =
     (Thrown (Error ''not found''), deployed_adapter, world0)"
proof
  have dep: "contractAbiInfo deployed_adapter ''Token'' = Some (withVmCode token_abi ''54c56b'')"
    by (simp add: deployed_adapter_def)
  have nofunc: "contractAbiInfo deployed_adapter ''Token'' = Some (withVmCode token_abi ''54c56b'')
      \<and> (args_func \<lparr>args_func = None, args_args = None\<rparr> = None
           \<or> read_prop (args_func \<lparr>args_func = None, args_args = None\<rparr>)
               \<notin> (\<lambda>f. JStr (f_name f)) ` set (abi_functions (withVmCode token_abi ''54c56b'')))"
    using dep by simp
  from invoke_lookup_throws_not_found [THEN conjunct1, rule_format, OF nofunc,
      of demo_sdk "answering_net 0" "()" "()" "Some (JArr [JStr ''AazE'', JNum 5])" "()" world0]
  show "invokeSmartContract demo_sdk (answering_net 0) deployed_adapter () ''Token'' ()
     \<lparr>args_func = None, args_args = Some (JArr [JStr ''AazE'', JNum 5])\<rparr> () world0 =
     (Thrown (Error ''not found''), deployed_adapter, world0)"
    by simp
  have absent: "contractAbiInfo deployed_adapter ''Token'' = Some (withVmCode token_abi ''54c56b'')
      \<and> (args_func \<lparr>args_func = Some (JStr ''mint''), args_args = None\<rparr> = None
           \<or> read_prop (args_func \<lparr>args_func = Some (JStr ''mint''), args_args = None\<rparr>)
               \<notin> (\<lambda>f. JStr (f_name f)) ` set (abi_functions (withVmCode token_abi ''54c56b'')))"
    using dep by (simp add: read_prop_def withVmCode_def token_abi_def)
  from invoke_lookup_throws_not_found [THEN conjunct1, rule_format, OF absent,
      of demo_sdk "answering_net 0" "()" "()" None "()" world0]
  show "invokeSmartContract demo_sdk (answering_net 0) deployed_adapter () ''Token'' ()
     \<lparr>args_func = Some (JStr ''mint''), args_args = None\<rparr> () world0 =
     (Thrown (Error ''not found''), deployed_adapter, world0)"
    by simp
qed

text \<open>
  C6. A call that names a contract without registry entry throws the error of line 131,
  whatever its arguments are, and the adapter and the world are as before: no parameter
  was bound, nothing was signed, nothing was sent.
\<close>

theorem invoke_contract_not_deployed:
  assumes "contractAbiInfo this contractID = None"
  shows "invokeSmartContract s n this context contractID contractVer a timeout w =
         (Thrown (Error ''the contract doesn't deploy!''), this, w)"
  using assms by (simp add: invokeSmartContract_def)

theorem invoke_contract_not_deployed_witness:
  "invokeSmartContract demo_sdk (answering_net 0) deployed_adapter () ''Coin'' ()
     transfer_args () world0 =
   (Thrown (Error ''the contract doesn't deploy!''), deployed_adapter, world0)"
proof -
  have "contractAbiInfo deployed_adapter ''Coin'' = None"
    by (simp add: deployed_adapter_def demo_adapter_def)
  then show ?thesis by (rule invoke_contract_not_deployed)
qed

text \<open>The loop that binds the arguments calls nothing but \<open>setParamsValue\<close>.\<close>

lemma bindParameters_calls:
  "bindParameters i abiFunc a w = (r, w1) \<Longrightarrow>
   polls w1 = polls w \<and> (\<exists>k. calls w1 = calls w @ replicate k SdkSetParamsValue)"
proof (induction i abiFunc a w rule: bindParameters.induct)
  case (1 i abiFunc a w)
  show ?case
  proof (cases "i < length (f_parameters abiFunc)")
    case False
    with "1.prems" have "w1 = w"
      by (simp add: bindParameters.simps)
    then have "calls w1 = calls w @ replicate 0 SdkSetParamsValue" by simp
    with \<open>w1 = w\<close> show ?thesis by blast
  next
    case True
    show ?thesis
    proof (cases "jsIndex (read_prop (args_args a)) i")
      case (Inl err)
      with True "1.prems" have "w1 = w"
        by (simp add: bindParameters.simps)
      then have "calls w1 = calls w @ replicate 0 SdkSetParamsValue" by simp
      with \<open>w1 = w\<close> show ?thesis by blast
    next
      case (Inr v)
      let ?param = "\<lparr>p_name = p_name (f_parameters abiFunc ! i),
                     p_type = p_type (f_parameters abiFunc ! i), p_value = v\<rparr>"
      from True Inr "1.prems"
      have step: "bindParameters (Suc i) (setParamsValue abiFunc ?param) a
                    (emit SdkSetParamsValue w) = (r, w1)"
        by (simp add: bindParameters.simps [of i])
      from "1.IH" [OF True Inr refl step] obtain k where
        "polls w1 = polls w" and "calls w1 = (calls w @ [SdkSetParamsValue]) @ replicate k SdkSetParamsValue"
        by auto
      then have "polls w1 = polls w \<and> calls w1 = calls w @ replicate (Suc k) SdkSetParamsValue"
        by simp
      then show ?thesis by blast
    qed
  qed
qed

text \<open>
  C4. Whatever a call of \<open>invokeSmartContract\<close> does, the adapter object after it is the
  adapter object before it: the registry and the ABI descriptions in it are unchanged,
  the bound descriptor being a value of its own. The binding loop reads no height and
  makes no call but those of \<open>setParamsValue\<close> on that descriptor.
\<close>

theorem invoke_leaves_registry:
  "fst (snd (invokeSmartContract s n this context contractID contractVer a timeout w)) = this
   \<and> (\<forall>i abiFunc r w1. bindParameters i abiFunc a w = (r, w1) \<longrightarrow>
         polls w1 = polls w \<and> (\<exists>k. calls w1 = calls w @ replicate k SdkSetParamsValue))"
proof (rule conjI)
  show "fst (snd (invokeSmartContract s n this context contractID contractVer a timeout w)) = this"
    by (simp add: invokeSmartContract_def Let_def split: option.splits prod.splits sum.splits)
next
  show "\<forall>i abiFunc r w1. bindParameters i abiFunc a w = (r, w1) \<longrightarrow>
         polls w1 = polls w \<and> (\<exists>k. calls w1 = calls w @ replicate k SdkSetParamsValue)"
    using bindParameters_calls by blast
qed

theorem invoke_leaves_registry_witness:
  "contractAbiInfo
     (fst (snd (invokeSmartContract demo_sdk (answering_net 0) deployed_adapter () ''Token'' ()
                  transfer_args () world0))) ''Token'' =
   Some (withVmCode token_abi ''54c56b'')"
  using invoke_leaves_registry [of demo_sdk "answering_net 0" deployed_adapter "()" "''Token''"
      "()" transfer_args "()" world0]
  by (simp add: deployed_adapter_def)

text \<open>
  C10. Two calls that differ only in \<open>context\<close>, \<open>contractVer\<close> and \<open>timeout\<close> (which
  may even be of other types) have the same outcome, adapter and world.
\<close>

theorem invoke_ignores_context_version_timeout:
  "invokeSmartContract s n this context contractID contractVer a timeout w =
   invokeSmartContract s n this context' contractID contractVer' a timeout' w"
  by (simp add: invokeSmartContract_def)

theorem invoke_ignores_context_version_timeout_witness:
  "invokeSmartContract demo_sdk (answering_net 0) deployed_adapter () ''Token'' ''1.0''
     transfer_args (30 :: nat) world0 =
   invokeSmartContract demo_sdk (answering_net 0) deployed_adapter (Some True) ''Token'' ''2.0''
     transfer_args (0 :: nat) world0"
  by (rule invoke_ignores_context_version_timeout)

subsection \<open>Submission and its status record\<close>

lemma bind_transfer_args:
  "bindParameters 0
     \<lparr>f_name = ''transfer'', f_returntype = ''Boolean'',
      f_parameters = [\<lparr>p_name = ''to'', p_type = ''ByteArray'', p_value = JStr ''''\<rparr>,
                      \<lparr>p_name = ''amount'', p_type = ''Integer'', p_value = JStr ''''\<rparr>]\<rparr>
     transfer_args world0 =
   (Inr \<lparr>f_name = ''transfer'', f_returntype = ''Boolean'',
         f_parameters = [\<lparr>p_name = ''to'', p_type = ''ByteArray'', p_value = JStr ''AazE''\<rparr>,
                         \<lparr>p_name = ''amount'', p_type = ''Integer'', p_value = JNum 5\<rparr>]\<rparr>,
    \<lparr>calls = [SdkSetParamsValue, SdkSetParamsValue], polls = 0\<rparr>)"
  by (simp add: bindParameters.simps transfer_args_def world0_def read_prop_def
      setParamsValue_def setValue_def emit_def)

text \<open>
  C2. What the code does when the transport answers with a negative result: the callback
  marks the status as failed and then calls \<open>GetID\<close> on the number, so the promise of
  \<open>transfer\<close> and of \<open>invokeSmartContract\<close> is rejected with a \<open>TypeError\<close> and no
  status record is returned.
\<close>

theorem negative_result_rejects:
  assumes "result < 0"
  shows "(postTx n txData = Inr result \<longrightarrow>
            transfer n txHash txData w = (Rejected TypeError, emit (NetPostTx txData) w))
       \<and> (contractAbiInfo this contractID = Some abiInfo
            \<and> args_func a = Some v
            \<and> getFunction abiInfo v = Inr abiFunc
            \<and> bindParameters 0 abiFunc a w = (Inr bound, w1)
            \<and> postTx n (serialize s (signedInvokeTx s this abiInfo bound)) = Inr result \<longrightarrow>
            fst (invokeSmartContract s n this context contractID contractVer a timeout w) =
              Rejected TypeError)"
proof (intro conjI impI)
  assume "postTx n txData = Inr result"
  with assms show "transfer n txHash txData w = (Rejected TypeError, emit (NetPostTx txData) w)"
    by (simp add: transfer_def thenPosted_negative)
next
  assume h: "contractAbiInfo this contractID = Some abiInfo
            \<and> args_func a = Some v
            \<and> getFunction abiInfo v = Inr abiFunc
            \<and> bindParameters 0 abiFunc a w = (Inr bound, w1)
            \<and> postTx n (serialize s (signedInvokeTx s this abiInfo bound)) = Inr result"
  then have "fst (invokeSmartContract s n this context contractID contractVer a timeout w) =
         fst (thenPosted result
                (TxStatus (reverseHex s (getHash s (signedInvokeTx s this abiInfo bound)))) w)"
    using invokeSmartContract_posted [of this contractID abiInfo a v abiFunc w bound w1 n s result]
    by simp
  with assms show "fst (invokeSmartContract s n this context contractID contractVer a timeout w) =
              Rejected TypeError"
    by (simp add: thenPosted_negative)
qed

theorem negative_result_rejects_witness:
  "transfer (answering_net (- 1)) ''54d1'' ''d154c55167'' world0 =
     (Rejected TypeError, \<lparr>calls = [NetPostTx ''d154c55167''], polls = 0\<rparr>)
   \<and> fst (invokeSmartContract demo_sdk (answering_net (- 1)) deployed_adapter () ''Token'' ()
            transfer_args () world0) = Rejected TypeError"
proof
  have neg: "(- 1 :: int) < 0" by simp
  have post: "postTx (answering_net (- 1)) d = Inr (- 1)" for d
    by (simp add: answering_net_def)
  from negative_result_rejects [OF neg, THEN conjunct1, rule_format, OF post]
  show "transfer (answering_net (- 1)) ''54d1'' ''d154c55167'' world0 =
     (Rejected TypeError, \<lparr>calls = [NetPostTx ''d154c55167''], polls = 0\<rparr>)"
    by (simp add: emit_def world0_def)
  have dep: "contractAbiInfo deployed_adapter ''Token'' = Some (withVmCode token_abi ''54c56b'')"
    by (simp add: deployed_adapter_def)
  have f: "args_func transfer_args = Some (JStr ''transfer'')"
    by (simp add: transfer_args_def)
  have g: "getFunction (withVmCode token_abi ''54c56b'') (JStr ''transfer'') =
      Inr \<lparr>f_name = ''transfer'', f_returntype = ''Boolean'',
            f_parameters = [\<lparr>p_name = ''to'', p_type = ''ByteArray'', p_value = JStr ''''\<rparr>,
                      \<lparr>p_name = ''amount'', p_type = ''Integer'', p_value = JStr ''''\<rparr>]\<rparr>"
    by (simp add: getFunction_def withVmCode_def token_abi_def)
  from negative_result_rejects [OF neg, THEN conjunct2, rule_format,
      OF conjI [OF dep conjI [OF f conjI [OF g conjI [OF bind_transfer_args post]]]]]
  show "fst (invokeSmartContract demo_sdk (answering_net (- 1)) deployed_adapter () ''Token'' ()
            transfer_args () world0) = Rejected TypeError" .
qed

subsection \<open>The registry\<close>

lemma deployItem_registers:
  assumes "readFileSync e (item_path item) = Some code"
    and "readFileSync e (item_abi item) = Some abiFileContent"
    and "abiParseJson s abiFileContent = Inr abiInfo"
  shows "\<exists>w1. deployItem s e item this w =
           (None,
            this\<lparr>contractAbiInfo :=
                   (contractAbiInfo this)(item_name item \<mapsto> withVmCode abiInfo code)\<rparr>,
            w1)"
  using assms by (simp add: deployItem_def Let_def)

lemma deployEach_append:
  "deployEach s e (xs @ ys) this w =
     (case deployEach s e xs this w of
        (Some err, this1, w1) \<Rightarrow> (Some err, this1, w1)
      | (None, this1, w1) \<Rightarrow> deployEach s e ys this1 w1)"
  by (induction xs arbitrary: this w) (auto split: prod.splits option.splits)

text \<open>
  C7. When the items \<open>earlier\<close> have been registered (some of them perhaps under the
  same name) and \<open>item\<close> is registered next, looking its name up gives an entry whose ABI
  description is the one parsed from the item's ABI file and whose bytecode is the
  content of the item's code file: nothing of an entry that was there before remains.
  The other names keep their entries.
\<close>

theorem register_then_lookup:
  assumes "deployEach s e earlier this w = (None, this1, w1)"
    and "readFileSync e (item_path item) = Some code"
    and "readFileSync e (item_abi item) = Some abiFileContent"
    and "abiParseJson s abiFileContent = Inr abiInfo"
  shows "\<exists>this2 w2 entry.
           deployEach s e (earlier @ [item]) this w = (None, this2, w2)
         \<and> contractAbiInfo this2 (item_name item) = Some entry
         \<and> abi_hash entry = abi_hash abiInfo
         \<and> abi_entrypoint entry = abi_entrypoint abiInfo
         \<and> abi_functions entry = abi_functions abiInfo
         \<and> vmCode entry = code
         \<and> (\<forall>other. other \<noteq> item_name item \<longrightarrow>
               contractAbiInfo this2 other = contractAbiInfo this1 other)"
proof -
  from deployItem_registers [OF assms(2-4), of this1 w1] obtain w2 where
    "deployItem s e item this1 w1 =
       (None,
        this1\<lparr>contractAbiInfo :=
                (contractAbiInfo this1)(item_name item \<mapsto> withVmCode abiInfo code)\<rparr>,
        w2)"
    by blast
  with assms(1) have "deployEach s e (earlier @ [item]) this w =
       (None,
        this1\<lparr>contractAbiInfo :=
                (contractAbiInfo this1)(item_name item \<mapsto> withVmCode abiInfo code)\<rparr>,
        w2)"
    by (simp add: deployEach_append)
  then show ?thesis
    by (simp add: withVmCode_def)
qed

theorem register_then_lookup_witness:
  "contractAbiInfo
     (fst (snd (deployEach demo_sdk demo_env [token_item, token_item_v2] demo_adapter world0)))
     ''Token'' =
   Some \<lparr>abi_hash = ''91a4'', abi_entrypoint = ''Main'',
         abi_functions = [\<lparr>f_name = ''burn'', f_returntype = ''Boolean'', f_parameters = []\<rparr>],
         vmCode = ''00c56b''\<rparr>"
proof -
  have first: "\<exists>this1 w1. deployEach demo_sdk demo_env [token_item] demo_adapter world0 =
      (None, this1, w1)"
    by (simp add: deployItem_def Let_def demo_env_def demo_files_def token_item_def
        demo_sdk_def)
  then obtain this1 w1 where
    one: "deployEach demo_sdk demo_env [token_item] demo_adapter world0 = (None, this1, w1)"
    by blast
  have code: "readFileSync demo_env (item_path token_item_v2) = Some ''00c56b''"
    by (simp add: demo_env_def demo_files_def token_item_v2_def token_item_def)
  have abi: "readFileSync demo_env (item_abi token_item_v2) = Some ''abi-v2''"
    by (simp add: demo_env_def demo_files_def token_item_v2_def token_item_def)
  have parsed: "abiParseJson demo_sdk ''abi-v2'' = Inr token_abi_v2"
    by (simp add: demo_sdk_def)
  from register_then_lookup [OF one code abi parsed] obtain this2 w2 entry where
    "deployEach demo_sdk demo_env ([token_item] @ [token_item_v2]) demo_adapter world0 =
       (None, this2, w2)"
    "contractAbiInfo this2 (item_name token_item_v2) = Some entry"
    "abi_hash entry = abi_hash token_abi_v2"
    "abi_entrypoint entry = abi_entrypoint token_abi_v2"
    "abi_functions entry = abi_functions token_abi_v2"
    "vmCode entry = ''00c56b''"
    by blast
  then show ?thesis
    by (cases entry) (simp add: token_abi_v2_def token_item_v2_def token_item_def)
qed

subsection \<open>Construction\<close>

text \<open>
  C8. Once the wallet has been read, any failure of the \<open>try\<close> block (no first account,
  no scrypt parameters, a decryption that throws) makes the constructor throw the one
  error of line 40; the result is that error and no adapter object.
\<close>

theorem decrypt_failure_is_fatal:
  assumes "loadWallet s e config_path = Inr (cfg, wal)"
    and "decryptAccount s e wal (cfg_password cfg) = Inl err"
  shows "Ontology s e config_path = Inl (Error ''decrypt wallet failed'')"
  using assms by (simp add: Ontology_def)

theorem decrypt_failure_is_fatal_witness:
  "Ontology demo_sdk demo_env ''badpass.json'' = Inl (Error ''decrypt wallet failed'')"
proof -
  have load: "loadWallet demo_sdk demo_env ''badpass.json'' =
      Inr (\<lparr>cfg_contract = [token_item], cfg_wallet = ''wallet.dat'', cfg_password = ''guess''\<rparr>,
           demo_wallet)"
    by (simp add: loadWallet_def demo_env_def demo_files_def demo_sdk_def)
  have "decryptAccount demo_sdk demo_env demo_wallet ''guess'' = Inl (Error ''Decrypt error'')"
    by (simp add: decryptAccount_def demo_wallet_def demo_sdk_def Let_def)
  then have "decryptAccount demo_sdk demo_env demo_wallet
      (cfg_password \<lparr>cfg_contract = [token_item], cfg_wallet = ''wallet.dat'',
                     cfg_password = ''guess''\<rparr>) = Inl (Error ''Decrypt error'')"
    by simp
  with load show ?thesis by (rule decrypt_failure_is_fatal)
qed

subsection \<open>Which calls give a status record\<close>

lemma deployEach_demo:
  "\<exists>this1. deployEach demo_sdk demo_env [token_item] demo_adapter world0 =
     (None, this1,
      \<lparr>calls = [SdkSignTransaction, NetPostTx ''d054c56b5167'', Log [''deploy'', ''54d0'']],
       polls = 0\<rparr>)"
  by (simp add: deployItem_def Let_def demo_env_def demo_files_def token_item_def
      demo_sdk_def demo_adapter_def demo_account_def emit_def world0_def)

text \<open>
  C5, as the claim states it, fails for deployment: the promise of
  \<open>installSmartContract\<close> resolves with no value. What the caller can observe of the
  deployment is the trace: the transaction signed and posted, its hash logged, and the
  two height readings.
\<close>

theorem install_gives_no_status_record:
  "map_option fst
     (installSmartContract demo_sdk demo_env (answering_net 0) demo_adapter world0) =
   Some (Resolved None)
   \<and> map_option (snd \<circ> snd)
     (installSmartContract demo_sdk demo_env (answering_net 0) demo_adapter world0) =
   Some \<lparr>calls = [SdkSignTransaction, NetPostTx ''d054c56b5167'', Log [''deploy'', ''54d0''],
                NetGetHeight, NetGetHeight],
         polls = 2\<rparr>"
proof -
  obtain this1 where
    each: "deployEach demo_sdk demo_env [token_item] demo_adapter world0 =
     (None, this1,
      \<lparr>calls = [SdkSignTransaction, NetPostTx ''d054c56b5167'', Log [''deploy'', ''54d0'']],
       polls = 0\<rparr>)"
    using deployEach_demo by blast
  let ?w = "\<lparr>calls = [SdkSignTransaction, NetPostTx ''d054c56b5167'', Log [''deploy'', ''54d0'']],
       polls = 0\<rparr>"
  have "waitABlock (answering_net 0) ?w =
         Some \<lparr>calls = calls ?w @ NetGetHeight #
                  concat (replicate 0 [NetGetHeight, UtilSleep 1000]) @ [NetGetHeight],
               polls = polls ?w + 0 + 2\<rparr>"
    by (rule waitABlock_first) (simp_all add: answering_net_def)
  with each show ?thesis
    by (simp add: installSmartContract_def demo_adapter_def)
qed

text \<open>
  C5, amended. \<open>transfer\<close>, and an invocation that gets as far as the transport
  (contract registered, function found, arguments bound), resolve with a status record
  when the transport answers with a result that is not negative: the record is not
  failed and carries the hash (the one passed to \<open>transfer\<close>; the reversed hash of the
  signed transaction for an invocation). \<open>installSmartContract\<close> gives no status
  record: its promise never settles, or is rejected, or resolves with no value.
\<close>

theorem status_record_of_submission:
  "(0 \<le> result \<and> postTx n txData = Inr result \<longrightarrow>
      fst (transfer n txHash txData w) = Resolved \<lparr>tx_id = txHash, tx_failed = False\<rparr>)
   \<and> (0 \<le> result
        \<and> contractAbiInfo this contractID = Some abiInfo
        \<and> args_func a = Some v
        \<and> getFunction abiInfo v = Inr abiFunc
        \<and> bindParameters 0 abiFunc a w = (Inr bound, w1)
        \<and> postTx n (serialize s (signedInvokeTx s this abiInfo bound)) = Inr result \<longrightarrow>
      fst (invokeSmartContract s n this context contractID contractVer a timeout w) =
        Resolved \<lparr>tx_id = reverseHex s (getHash s (signedInvokeTx s this abiInfo bound)),
                  tx_failed = False\<rparr>)
   \<and> (installSmartContract s e n this w = None
        \<or> (\<exists>err this1 w2. installSmartContract s e n this w = Some (Rejected err, this1, w2))
        \<or> (\<exists>this1 w2. installSmartContract s e n this w = Some (Resolved None, this1, w2)))"
proof (intro conjI impI)
  assume "0 \<le> result \<and> postTx n txData = Inr result"
  then show "fst (transfer n txHash txData w) = Resolved \<lparr>tx_id = txHash, tx_failed = False\<rparr>"
    by (simp add: transfer_def thenPosted_nonnegative TxStatus_def)
next
  assume h: "0 \<le> result
        \<and> contractAbiInfo this contractID = Some abiInfo
        \<and> args_func a = Some v
        \<and> getFunction abiInfo v = Inr abiFunc
        \<and> bindParameters 0 abiFunc a w = (Inr bound, w1)
        \<and> postTx n (serialize s (signedInvokeTx s this abiInfo bound)) = Inr result"
  then have "fst (invokeSmartContract s n this context contractID contractVer a timeout w) =
         fst (thenPosted result
                (TxStatus (reverseHex s (getHash s (signedInvokeTx s this abiInfo bound)))) w)"
    using invokeSmartContract_posted [of this contractID abiInfo a v abiFunc w bound w1 n s result]
    by simp
  with h show "fst (invokeSmartContract s n this context contractID contractVer a timeout w) =
        Resolved \<lparr>tx_id = reverseHex s (getHash s (signedInvokeTx s this abiInfo bound)),
                  tx_failed = False\<rparr>"
    by (simp add: thenPosted_nonnegative TxStatus_def)
next
  obtain failure this1 w1 where
    each: "deployEach s e (contractConfig this) this w = (failure, this1, w1)"
    by (cases "deployEach s e (contractConfig this) this w")
  show "installSmartContract s e n this w = None
        \<or> (\<exists>err this1 w2. installSmartContract s e n this w = Some (Rejected err, this1, w2))
        \<or> (\<exists>this1 w2. installSmartContract s e n this w = Some (Resolved None, this1, w2))"
  proof (cases failure)
    case (Some err)
    with each have "installSmartContract s e n this w = Some (Rejected err, this1, w1)"
      by (simp add: installSmartContract_def)
    then show ?thesis by blast
  next
    case None
    show ?thesis
    proof (cases "waitABlock n w1")
      case None
      with each \<open>failure = None\<close> have "installSmartContract s e n this w = None"
        by (simp add: installSmartContract_def)
      then show ?thesis by blast
    next
      case (Some w2)
      with each \<open>failure = None\<close>
      have "installSmartContract s e n this w = Some (Resolved None, this1, w2)"
        by (simp add: installSmartContract_def)
      then show ?thesis by blast
    qed
  qed
qed

theorem status_record_of_submission_witness:
  "fst (transfer (answering_net 0) ''54d1'' ''d154c55167'' world0) =
     Resolved \<lparr>tx_id = ''54d1'', tx_failed = False\<rparr>
   \<and> fst (invokeSmartContract demo_sdk (answering_net 7) deployed_adapter () ''Token'' ()
            transfer_args () world0) =
     Resolved \<lparr>tx_id = ''54d1'', tx_failed = False\<rparr>"
proof
  have post: "0 \<le> r \<Longrightarrow> 0 \<le> r \<and> postTx (answering_net r) d = Inr r" for r d
    by (simp add: answering_net_def)
  have zero: "(0::int) \<le> 0" by simp
  from status_record_of_submission [THEN conjunct1, rule_format, OF post [OF zero]]
  show "fst (transfer (answering_net 0) ''54d1'' ''d154c55167'' world0) =
     Resolved \<lparr>tx_id = ''54d1'', tx_failed = False\<rparr>" .
  have seven: "(0::int) \<le> 7" by simp
  have dep: "contractAbiInfo deployed_adapter ''Token'' = Some (withVmCode token_abi ''54c56b'')"
    by (simp add: deployed_adapter_def)
  have f: "args_func transfer_args = Some (JStr ''transfer'')"
    by (simp add: transfer_args_def)
  have g: "getFunction (withVmCode token_abi ''54c56b'') (JStr ''transfer'') =
      Inr \<lparr>f_name = ''transfer'', f_returntype = ''Boolean'',
            f_parameters = [\<lparr>p_name = ''to'', p_type = ''ByteArray'', p_value = JStr ''''\<rparr>,
                      \<lparr>p_name = ''amount'', p_type = ''Integer'', p_value = JStr ''''\<rparr>]\<rparr>"
    by (simp add: getFunction_def withVmCode_def token_abi_def)
  have p: "postTx (answering_net 7) d = Inr 7" for d
    by (simp add: answering_net_def)
  from status_record_of_submission [THEN conjunct2, THEN conjunct1, rule_format,
      OF conjI [OF seven conjI [OF dep conjI [OF f conjI [OF g conjI [OF bind_transfer_args p]]]]],
      of demo_sdk]
  show "fst (invokeSmartContract demo_sdk (answering_net 7) deployed_adapter () ''Token'' ()
            transfer_args () world0) =
     Resolved \<lparr>tx_id = ''54d1'', tx_failed = False\<rparr>"
    by (simp add: signedInvokeTx_def demo_sdk_def withVmCode_def)
qed

end
